theory Spec2Isabelle
  imports Main
begin

section \<open>Single-URL scraping orchestration (single\_url.ts)\<close>

text \<open>
  A shallow embedding of \<^verbatim>\<open>apps/api/src/scraper/WebScraper/single_url.ts\<close>.

  JavaScript strings are modelled as \<^typ>\<open>string\<close>, an absent (\<^verbatim>\<open>undefined\<close>) value as
  \<^term>\<open>None\<close>, and the numbers that hold status codes, waits and timeouts as \<^typ>\<open>int\<close>.
  A thrown exception is a value \<open>Inl e\<close>. The four network adapters, the override hook, the
  PDF extractor and the HTML utilities do input and output or live in other modules: they are
  parameters of the model (record \<open>collaborators\<close>), each free to return any value of its
  return type or to throw, and every call of an effectful one is appended to a trace of calls.
\<close>

subsection \<open>Environment and the fallback order planner\<close>

record environment =
  FIRE_ENGINE_BETA_URL :: "string option"
  SCRAPING_BEE_API_KEY :: "string option"
  PLAYWRIGHT_MICROSERVICE_URL :: "string option"

text \<open>\<^verbatim>\<open>!!process.env.X\<close>: an unset variable is \<^verbatim>\<open>undefined\<close>, a set one is a string, and
  the empty string is falsy.\<close>

definition env_set :: "string option \<Rightarrow> bool" where
  "env_set v = (case v of None \<Rightarrow> False | Some s \<Rightarrow> s \<noteq> [])"

definition baseScrapers :: "string list" where
  "baseScrapers = [''fire-engine'', ''scrapingBee'', ''playwright'', ''scrapingBeeLoad'', ''fetch'']"

text \<open>The \<^verbatim>\<open>switch\<close> inside the filter callback of \<^verbatim>\<open>availableScrapers\<close> (lines 410-422).\<close>

definition scraper_available :: "environment \<Rightarrow> string \<Rightarrow> bool" where
  "scraper_available env scraper =
     (if scraper = ''scrapingBee'' \<or> scraper = ''scrapingBeeLoad'' then env_set (SCRAPING_BEE_API_KEY env)
      else if scraper = ''fire-engine'' then env_set (FIRE_ENGINE_BETA_URL env)
      else if scraper = ''playwright'' then env_set (PLAYWRIGHT_MICROSERVICE_URL env)
      else True)"

definition availableScrapers :: "environment \<Rightarrow> string list" where
  "availableScrapers env = filter (scraper_available env) baseScrapers"

text \<open>A JavaScript \<^verbatim>\<open>Set\<close> built from an array and read back with \<^verbatim>\<open>Array.from\<close>: elements
  in insertion order, a value already present is not inserted again.\<close>

definition set_add :: "'a list \<Rightarrow> 'a \<Rightarrow> 'a list" where
  "set_add acc x = (if x \<in> set acc then acc else acc @ [x])"

definition new_Set :: "'a list \<Rightarrow> 'a list" where
  "new_Set xs = foldl set_add [] xs"

definition initialOrder :: "string list" where
  "initialOrder = [''scrapingBee'', ''fire-engine'', ''playwright'', ''scrapingBeeLoad'', ''fetch'']"

text \<open>\<^verbatim>\<open>getScrapingFallbackOrder\<close> (lines 404-454). \<open>defaultScraper\<close> is a string; the empty
  string is falsy and means that no backend is forced.\<close>

definition getScrapingFallbackOrder ::
  "environment \<Rightarrow> string \<Rightarrow> bool \<Rightarrow> bool \<Rightarrow> bool \<Rightarrow> string list" where
  "getScrapingFallbackOrder env defaultScraper isWaitPresent isScreenshotPresent isHeadersPresent =
     (let defaultOrder =
            (if isWaitPresent \<or> isScreenshotPresent \<or> isHeadersPresent
             then [''fire-engine'', ''playwright''] @
                  filter (\<lambda>scraper. scraper \<noteq> ''fire-engine'' \<and> scraper \<noteq> ''playwright'') initialOrder
             else initialOrder);
          filteredDefaultOrder = filter (\<lambda>scraper. scraper \<in> set (availableScrapers env)) defaultOrder
      in new_Set (if defaultScraper \<noteq> []
                  then [defaultScraper] @ filteredDefaultOrder @ availableScrapers env
                  else filteredDefaultOrder @ availableScrapers env))"

subsection \<open>Strings and values\<close>

text \<open>\<^verbatim>\<open>String.prototype.trim\<close> removes white space and line terminators from both ends.
  Of the characters it removes, those below 256 are TAB, LF, VT, FF, CR, SPACE and NBSP.\<close>

definition js_whitespace :: "char \<Rightarrow> bool" where
  "js_whitespace ch = (of_char ch \<in> {9, 10, 11, 12, 13, 32, 160 :: nat})"

definition trim :: "string \<Rightarrow> string" where
  "trim s = rev (dropWhile js_whitespace (rev (dropWhile js_whitespace s)))"

datatype jsval = JUndefined | JNull | JBool bool | JNum int | JStr string
  | JObj "(string \<times> jsval) list"

type_synonym jsobject = "string \<rightharpoonup> jsval"

datatype exn = Error string

subsection \<open>Data passed between the orchestrator and its collaborators\<close>

record PageOptions =
  po_onlyMainContent :: "bool option"
  po_includeHtml :: "bool option"
  po_includeRawHtml :: "bool option"
  po_waitFor :: "int option"
  po_screenshot :: "bool option"
  po_headers :: "(string \<times> string) list option"
  po_fallback :: "bool option"
  po_parsePDF :: "bool option"
  po_scrollXPaths :: "string list option"

text \<open>The object argument of \<^verbatim>\<open>scrapWithFireEngine\<close>.\<close>

record fire_engine_args =
  arg_url :: string
  arg_waitFor :: "int option"
  arg_screenshot :: "bool option"
  arg_pageOptions :: "PageOptions option"
  arg_headers :: "(string \<times> string) list option"

text \<open>\<^verbatim>\<open>FireEngineResponse\<close>: \<^verbatim>\<open>{html, screenshot, pageStatusCode?, pageError?}\<close>.\<close>

record FireEngineResponse =
  fe_html :: string
  fe_screenshot :: string
  fe_pageStatusCode :: "int option"
  fe_pageError :: "string option"

text \<open>What the other adapters and the PDF extractor return:
  \<^verbatim>\<open>{content, pageStatusCode?, pageError?}\<close>.\<close>

record ScrapeResult =
  sr_content :: string
  sr_pageStatusCode :: "int option"
  sr_pageError :: "string option"

text \<open>What \<^verbatim>\<open>handleCustomScraping\<close> returns when it is not \<^verbatim>\<open>null\<close>.\<close>

record CustomScraperResult =
  d_scraper :: string
  d_url :: string
  d_waitAfterLoad :: "int option"
  d_pageOptions :: "PageOptions option"

datatype call =
    Call_scrapWithFireEngine fire_engine_args
  | Call_scrapWithScrapingBee string string int
  | Call_scrapWithPlaywright string "int option" "(string \<times> string) list option"
  | Call_scrapWithFetch string
  | Call_fetchAndProcessPdf string "bool option"
  | Call_handleCustomScraping string string

text \<open>The calls of the override hook among the calls of a trace.\<close>

fun is_hook_call :: "call \<Rightarrow> bool" where
  "is_hook_call (Call_handleCustomScraping text url) = True"
| "is_hook_call other = False"

text \<open>The collaborators of the module. An effectful collaborator answers from the trace of
  the calls made before it and its arguments, so that two calls with the same arguments may
  answer differently; \<open>Inl\<close> is a thrown exception. \<open>url_hostname\<close> is
  \<^verbatim>\<open>new URL(url).hostname\<close>, \<open>None\<close> when the constructor throws;
  \<open>urlSpecificParams\<close> is the table of \<^verbatim>\<open>utils/custom/website_params\<close>;
  \<open>extractMetadata\<close> stands for \<^verbatim>\<open>extractMetadata(cheerio.load(rawHtml), url)\<close>.\<close>

record collaborators =
  env :: environment
  urlSpecificParams :: "string \<rightharpoonup> jsobject"
  url_hostname :: "string \<Rightarrow> string option"
  scrapWithFireEngine :: "call list \<Rightarrow> fire_engine_args \<Rightarrow> exn + FireEngineResponse"
  scrapWithScrapingBee :: "call list \<Rightarrow> string \<Rightarrow> string \<Rightarrow> int \<Rightarrow> exn + ScrapeResult"
  scrapWithPlaywright ::
    "call list \<Rightarrow> string \<Rightarrow> int option \<Rightarrow> (string \<times> string) list option \<Rightarrow> exn + ScrapeResult"
  scrapWithFetch :: "call list \<Rightarrow> string \<Rightarrow> exn + ScrapeResult"
  fetchAndProcessPdf :: "call list \<Rightarrow> string \<Rightarrow> bool option \<Rightarrow> exn + ScrapeResult"
  handleCustomScraping :: "call list \<Rightarrow> string \<Rightarrow> string \<Rightarrow> exn + CustomScraperResult option"
  removeUnwantedElements :: "string \<Rightarrow> PageOptions \<Rightarrow> exn + string"
  parseMarkdown :: "string \<Rightarrow> exn + string"
  extractMetadata :: "string \<Rightarrow> string \<Rightarrow> exn + jsobject"

subsection \<open>Effects: a trace of calls, and exceptions\<close>

type_synonym 'a io = "call list \<Rightarrow> (exn + 'a) \<times> call list"

definition io_return :: "'a \<Rightarrow> 'a io" where
  "io_return x tr = (Inr x, tr)"

definition io_bind :: "'a io \<Rightarrow> ('a \<Rightarrow> 'b io) \<Rightarrow> 'b io" where
  "io_bind m f tr = (case m tr of (Inl e, tr') \<Rightarrow> (Inl e, tr') | (Inr x, tr') \<Rightarrow> f x tr')"

text \<open>A call of an effectful collaborator: it is recorded whether it returns or throws.\<close>

definition io_call :: "call \<Rightarrow> (call list \<Rightarrow> exn + 'a) \<Rightarrow> 'a io" where
  "io_call cl answer tr = (answer tr, tr @ [cl])"

text \<open>A call of a collaborator without effects, which may still throw.\<close>

definition io_pure :: "exn + 'a \<Rightarrow> 'a io" where
  "io_pure r tr = (r, tr)"

subsection \<open>The host parameter resolver\<close>

text \<open>\<^verbatim>\<open>hostname.replace(/^www\./, "")\<close>.\<close>

definition strip_www :: "string \<Rightarrow> string" where
  "strip_www h = (if take 4 h = ''www.'' then drop 4 h else h)"

text \<open>\<^verbatim>\<open>generateRequestParams\<close> (lines 25-47). The object spread
  \<^verbatim>\<open>{...defaultParams, ...urlSpecificParams[urlKey]}\<close> is map override. The inner
  \<open>case\<close> is the body of the \<^verbatim>\<open>try\<close>, the outer one the \<^verbatim>\<open>catch\<close>.\<close>

definition defaultParams :: "string \<Rightarrow> string \<Rightarrow> int \<Rightarrow> jsobject" where
  "defaultParams url wait_browser timeout =
     [''url'' \<mapsto> JStr url,
      ''params'' \<mapsto> JObj [(''timeout'', JNum timeout), (''wait_browser'', JStr wait_browser)],
      ''headers'' \<mapsto> JObj [(''ScrapingService-Request'', JStr ''TRUE'')]]"

definition generateRequestParams :: "collaborators \<Rightarrow> string \<Rightarrow> string \<Rightarrow> int \<Rightarrow> jsobject" where
  "generateRequestParams c url wait_browser timeout =
     (case (case url_hostname c url of
              None \<Rightarrow> Inl (Error ''Invalid URL'')
            | Some hostname \<Rightarrow>
                (let urlKey = strip_www hostname
                 in case urlSpecificParams c urlKey of
                      Some entry \<Rightarrow> Inr (defaultParams url wait_browser timeout ++ entry)
                    | None \<Rightarrow> Inr (defaultParams url wait_browser timeout)))
      of Inl error \<Rightarrow> defaultParams url wait_browser timeout
       | Inr params \<Rightarrow> params)"

subsection \<open>One attempt\<close>

text \<open>The local \<^verbatim>\<open>scraperResponse\<close> of \<^verbatim>\<open>attemptScraping\<close>.\<close>

record scraperResponse =
  resp_text :: string
  resp_screenshot :: string
  resp_pageStatusCode :: "int option"
  resp_pageError :: "string option"

text \<open>What \<^verbatim>\<open>attemptScraping\<close> returns.\<close>

record attempt =
  att_text :: string
  att_html :: string
  att_rawHtml :: string
  att_screenshot :: string
  att_pageStatusCode :: "int option"
  att_pageError :: "string option"

definition empty_scraperResponse :: scraperResponse where
  "empty_scraperResponse =
     \<lparr>resp_text = [], resp_screenshot = [], resp_pageStatusCode = None, resp_pageError = None\<rparr>"

definition from_ScrapeResult :: "ScrapeResult \<Rightarrow> scraperResponse" where
  "from_ScrapeResult response =
     \<lparr>resp_text = sr_content response, resp_screenshot = [],
      resp_pageStatusCode = sr_pageStatusCode response, resp_pageError = sr_pageError response\<rparr>"

text \<open>The \<^verbatim>\<open>switch (method)\<close> of lines 483-538. A method that is none of the five names
  leaves \<^verbatim>\<open>scraperResponse\<close> as it was initialised.\<close>

definition call_scraper :: "collaborators \<Rightarrow> PageOptions \<Rightarrow> string \<Rightarrow> string \<Rightarrow> scraperResponse io" where
  "call_scraper c pageOptions url method =
     (if method = ''fire-engine'' then
        (if env_set (FIRE_ENGINE_BETA_URL (env c)) then
           (let args = \<lparr>arg_url = url, arg_waitFor = po_waitFor pageOptions,
                        arg_screenshot = po_screenshot pageOptions,
                        arg_pageOptions = Some pageOptions, arg_headers = po_headers pageOptions\<rparr>
            in io_bind (io_call (Call_scrapWithFireEngine args) (\<lambda>tr. scrapWithFireEngine c tr args))
                 (\<lambda>response. io_return
                    \<lparr>resp_text = fe_html response, resp_screenshot = fe_screenshot response,
                     resp_pageStatusCode = fe_pageStatusCode response,
                     resp_pageError = fe_pageError response\<rparr>))
         else io_return empty_scraperResponse)
      else if method = ''scrapingBee'' then
        (if env_set (SCRAPING_BEE_API_KEY (env c)) then
           (let timeout = (if po_fallback pageOptions = Some False then 7000 else 15000)
            in io_bind (io_call (Call_scrapWithScrapingBee url ''domcontentloaded'' timeout)
                          (\<lambda>tr. scrapWithScrapingBee c tr url ''domcontentloaded'' timeout))
                 (\<lambda>response. io_return (from_ScrapeResult response)))
         else io_return empty_scraperResponse)
      else if method = ''playwright'' then
        (if env_set (PLAYWRIGHT_MICROSERVICE_URL (env c)) then
           io_bind (io_call (Call_scrapWithPlaywright url (po_waitFor pageOptions) (po_headers pageOptions))
                      (\<lambda>tr. scrapWithPlaywright c tr url (po_waitFor pageOptions) (po_headers pageOptions)))
             (\<lambda>response. io_return (from_ScrapeResult response))
         else io_return empty_scraperResponse)
      else if method = ''scrapingBeeLoad'' then
        (if env_set (SCRAPING_BEE_API_KEY (env c)) then
           io_bind (io_call (Call_scrapWithScrapingBee url ''networkidle2'' 15000)
                      (\<lambda>tr. scrapWithScrapingBee c tr url ''networkidle2'' 15000))
             (\<lambda>response. io_return (from_ScrapeResult response))
         else io_return empty_scraperResponse)
      else if method = ''fetch'' then
        io_bind (io_call (Call_scrapWithFetch url) (\<lambda>tr. scrapWithFetch c tr url))
          (\<lambda>response. io_return (from_ScrapeResult response))
      else io_return empty_scraperResponse)"

text \<open>Lines 548-575: what the directive of the override hook makes the attempt fetch.
  \<open>screenshot\<close> is the local variable \<^verbatim>\<open>screenshot\<close> of \<^verbatim>\<open>attemptScraping\<close>. A directive
  whose \<^verbatim>\<open>scraper\<close> is neither \<^verbatim>\<open>"fire-engine"\<close> nor \<^verbatim>\<open>"pdf"\<close> matches no case.\<close>

definition custom_fire_engine_args :: "CustomScraperResult \<Rightarrow> fire_engine_args" where
  "custom_fire_engine_args d =
     \<lparr>arg_url = d_url d, arg_waitFor = d_waitAfterLoad d, arg_screenshot = Some False,
      arg_pageOptions = d_pageOptions d, arg_headers = None\<rparr>"

definition custom_scrape ::
  "collaborators \<Rightarrow> PageOptions \<Rightarrow> string \<Rightarrow> CustomScraperResult option \<Rightarrow> FireEngineResponse option io" where
  "custom_scrape c pageOptions screenshot customScraperResult =
     (case customScraperResult of
        None \<Rightarrow> io_return None
      | Some d \<Rightarrow>
          if d_scraper d = ''fire-engine'' then
            (let args = custom_fire_engine_args d
             in io_bind (io_call (Call_scrapWithFireEngine args) (\<lambda>tr. scrapWithFireEngine c tr args))
                  (\<lambda>customScrapedContent. io_return
                     (Some (if screenshot \<noteq> []
                            then customScrapedContent\<lparr>fe_screenshot := screenshot\<rparr>
                            else customScrapedContent))))
          else if d_scraper d = ''pdf'' then
            io_bind (io_call (Call_fetchAndProcessPdf (d_url d) (po_parsePDF pageOptions))
                       (\<lambda>tr. fetchAndProcessPdf c tr (d_url d) (po_parsePDF pageOptions)))
              (\<lambda>pdf. io_return
                 (Some \<lparr>fe_html = sr_content pdf, fe_screenshot = screenshot,
                        fe_pageStatusCode = sr_pageStatusCode pdf, fe_pageError = sr_pageError pdf\<rparr>))
          else io_return None)"

text \<open>\<^verbatim>\<open>pageError || undefined\<close>: the empty string is falsy.\<close>

definition or_undefined :: "string option \<Rightarrow> string option" where
  "or_undefined e = (case e of None \<Rightarrow> None | Some s \<Rightarrow> if s = [] then None else Some s)"

text \<open>\<^verbatim>\<open>attemptScraping\<close> (lines 473-592). The local \<^verbatim>\<open>screenshot\<close> is \<^verbatim>\<open>""\<close> when the hook
  runs, since the \<^verbatim>\<open>switch\<close> writes \<^verbatim>\<open>scraperResponse.screenshot\<close>; the assignment to it
  at line 579 is not read afterwards, the returned screenshot being
  \<^verbatim>\<open>scraperResponse.screenshot\<close>.\<close>

definition attemptScraping :: "collaborators \<Rightarrow> PageOptions \<Rightarrow> string \<Rightarrow> string \<Rightarrow> attempt io" where
  "attemptScraping c pageOptions url method =
     io_bind (call_scraper c pageOptions url method) (\<lambda>scraperResponse.
     io_bind (io_call (Call_handleCustomScraping (resp_text scraperResponse) url)
                (\<lambda>tr. handleCustomScraping c tr (resp_text scraperResponse) url)) (\<lambda>customScraperResult.
     io_bind (custom_scrape c pageOptions [] customScraperResult) (\<lambda>customScrapedContent.
     (let text = (case customScrapedContent of
                    Some content \<Rightarrow> fe_html content
                  | None \<Rightarrow> resp_text scraperResponse)
      in io_bind (io_pure (removeUnwantedElements c text pageOptions)) (\<lambda>cleanedHtml.
         io_bind (io_pure (parseMarkdown c cleanedHtml)) (\<lambda>markdown.
         io_return
           \<lparr>att_text = markdown, att_html = cleanedHtml, att_rawHtml = text,
            att_screenshot = resp_screenshot scraperResponse,
            att_pageStatusCode = resp_pageStatusCode scraperResponse,
            att_pageError = or_undefined (resp_pageError scraperResponse)\<rparr>))))))"

subsection \<open>The orchestration loop\<close>

text \<open>The variables declared at lines 594-601, which the loop reassigns and the
  \<^verbatim>\<open>catch\<close> block reads.\<close>

record loop_vars =
  var_text :: string
  var_html :: string
  var_rawHtml :: string
  var_screenshot :: string
  var_pageStatusCode :: int
  var_pageError :: "string option"

definition initial_vars :: loop_vars where
  "initial_vars =
     \<lparr>var_text = [], var_html = [], var_rawHtml = [], var_screenshot = [],
      var_pageStatusCode = 200, var_pageError = None\<rparr>"

text \<open>Comparisons of a possibly \<^verbatim>\<open>undefined\<close> number: \<^verbatim>\<open>undefined >= 400\<close> and
  \<^verbatim>\<open>undefined < 400\<close> are both false.\<close>

definition js_ge :: "int option \<Rightarrow> int \<Rightarrow> bool" where
  "js_ge a b = (case a of None \<Rightarrow> False | Some n \<Rightarrow> b \<le> n)"

definition js_lt :: "int option \<Rightarrow> int \<Rightarrow> bool" where
  "js_lt a b = (case a of None \<Rightarrow> False | Some n \<Rightarrow> n < b)"

text \<open>Lines 627-639: the attempt is folded into the variables. \<^verbatim>\<open>if (attempt.pageStatusCode)\<close>
  is false for \<^verbatim>\<open>undefined\<close> and for \<^verbatim>\<open>0\<close>; \<^verbatim>\<open>attempt.pageError\<close> is truthy when it is a
  non-empty string.\<close>

definition fold_attempt :: "loop_vars \<Rightarrow> attempt \<Rightarrow> loop_vars" where
  "fold_attempt v attempt =
     (let v1 = v\<lparr>var_text := att_text attempt, var_html := att_html attempt,
                 var_rawHtml := att_rawHtml attempt, var_screenshot := att_screenshot attempt\<rparr>;
          v2 = (case att_pageStatusCode attempt of
                  None \<Rightarrow> v1
                | Some n \<Rightarrow> if n \<noteq> 0 then v1\<lparr>var_pageStatusCode := n\<rparr> else v1)
      in if or_undefined (att_pageError attempt) \<noteq> None \<and> js_ge (att_pageStatusCode attempt) 400
         then v2\<lparr>var_pageError := att_pageError attempt\<rparr>
         else if js_lt (att_pageStatusCode attempt) 400
         then v2\<lparr>var_pageError := None\<rparr>
         else v2)"

text \<open>Line 641 and line 619: \<^verbatim>\<open>text && text.trim().length >= 100\<close>.\<close>

definition sufficient :: "string \<Rightarrow> bool" where
  "sufficient text = (text \<noteq> [] \<and> 100 \<le> length (trim text))"

text \<open>The \<^verbatim>\<open>for\<close> loop of lines 617-647, over the scrapers still to try. The result is the
  exception thrown out of the loop if there is one, the variables and the trace.\<close>

fun scrape_loop ::
  "collaborators \<Rightarrow> PageOptions \<Rightarrow> string \<Rightarrow> string \<Rightarrow> string list \<Rightarrow> loop_vars \<Rightarrow> call list
     \<Rightarrow> exn option \<times> loop_vars \<times> call list" where
  "scrape_loop c pageOptions existingHtml urlToScrap [] v tr = (None, v, tr)"
| "scrape_loop c pageOptions existingHtml urlToScrap (scraper # rest) v tr =
     (if sufficient existingHtml then
        (case removeUnwantedElements c existingHtml pageOptions of
           Inl e \<Rightarrow> (Some e, v, tr)
         | Inr cleanedHtml \<Rightarrow>
             (case parseMarkdown c cleanedHtml of
                Inl e \<Rightarrow> (Some e, v, tr)
              | Inr markdown \<Rightarrow> (None, v\<lparr>var_text := markdown, var_html := cleanedHtml\<rparr>, tr)))
      else
        (case attemptScraping c pageOptions urlToScrap scraper tr of
           (Inl e, tr') \<Rightarrow> (Some e, v, tr')
         | (Inr attempt, tr') \<Rightarrow>
             (let v' = fold_attempt v attempt
              in if sufficient (var_text v') then (None, v', tr')
                 else if var_pageStatusCode v' \<noteq> 0 \<and> var_pageStatusCode v' = 404 then (None, v', tr')
                 else scrape_loop c pageOptions existingHtml urlToScrap rest v' tr')))"

text \<open>The attempts that the loop folds, in order (the results of the calls of
  \<^verbatim>\<open>attemptScraping\<close> that returned).\<close>

fun loop_attempts ::
  "collaborators \<Rightarrow> PageOptions \<Rightarrow> string \<Rightarrow> string \<Rightarrow> string list \<Rightarrow> loop_vars \<Rightarrow> call list
     \<Rightarrow> attempt list" where
  "loop_attempts c pageOptions existingHtml urlToScrap [] v tr = []"
| "loop_attempts c pageOptions existingHtml urlToScrap (scraper # rest) v tr =
     (if sufficient existingHtml then []
      else
        (case attemptScraping c pageOptions urlToScrap scraper tr of
           (Inl e, tr') \<Rightarrow> []
         | (Inr attempt, tr') \<Rightarrow>
             (let v' = fold_attempt v attempt
              in if sufficient (var_text v') then [attempt]
                 else if var_pageStatusCode v' \<noteq> 0 \<and> var_pageStatusCode v' = 404 then [attempt]
                 else attempt # loop_attempts c pageOptions existingHtml urlToScrap rest v' tr')))"

subsection \<open>The document\<close>

record Document =
  doc_content :: string
  doc_markdown :: string
  doc_html :: "string option"
  doc_rawHtml :: "string option"
  doc_metadata :: jsobject

definition js_string_option :: "string option \<Rightarrow> jsval" where
  "js_string_option e = (case e of None \<Rightarrow> JUndefined | Some s \<Rightarrow> JStr s)"

text \<open>The document of the \<^verbatim>\<open>catch\<close> block (lines 687-699).\<close>

definition degraded_document :: "string \<Rightarrow> loop_vars \<Rightarrow> Document" where
  "degraded_document urlToScrap v =
     \<lparr>doc_content = [], doc_markdown = [], doc_html = Some [], doc_rawHtml = None,
      doc_metadata =
        [''sourceURL'' \<mapsto> JStr urlToScrap,
         ''pageStatusCode'' \<mapsto> JNum (var_pageStatusCode v),
         ''pageError'' \<mapsto> js_string_option (var_pageError v)]\<rparr>"

text \<open>The document of lines 656-684.\<close>

definition build_document :: "PageOptions \<Rightarrow> string \<Rightarrow> string \<Rightarrow> loop_vars \<Rightarrow> jsobject \<Rightarrow> Document" where
  "build_document pageOptions mode urlToScrap v metadata =
     \<lparr>doc_content = var_text v, doc_markdown = var_text v,
      doc_html = (if po_includeHtml pageOptions = Some True then Some (var_html v) else None),
      doc_rawHtml =
        (if po_includeRawHtml pageOptions = Some True \<or> mode = ''llm-extraction-from-raw-html''
         then Some (var_rawHtml v) else None),
      doc_metadata =
        (if var_screenshot v \<noteq> [] \<and> 0 < length (var_screenshot v)
         then metadata(''screenshot'' \<mapsto> JStr (var_screenshot v),
                ''sourceURL'' \<mapsto> JStr urlToScrap,
                ''pageStatusCode'' \<mapsto> JNum (var_pageStatusCode v),
                ''pageError'' \<mapsto> js_string_option (var_pageError v))
         else metadata(''sourceURL'' \<mapsto> JStr urlToScrap,
                ''pageStatusCode'' \<mapsto> JNum (var_pageStatusCode v),
                ''pageError'' \<mapsto> js_string_option (var_pageError v)))\<rparr>"

subsection \<open>scrapSingleUrl\<close>

text \<open>Lines 603-615: the host key, the forced scraper of its table entry and the planned
  order.\<close>

definition url_key :: "collaborators \<Rightarrow> string \<Rightarrow> string" where
  "url_key c urlToScrap =
     (case url_hostname c urlToScrap of None \<Rightarrow> urlToScrap | Some hostname \<Rightarrow> strip_www hostname)"

definition forced_scraper :: "collaborators \<Rightarrow> string \<Rightarrow> string" where
  "forced_scraper c urlKey =
     (case urlSpecificParams c urlKey of
        None \<Rightarrow> []
      | Some entry \<Rightarrow> (case entry ''defaultScraper'' of Some (JStr s) \<Rightarrow> s | _ \<Rightarrow> []))"

definition planned_order :: "collaborators \<Rightarrow> PageOptions \<Rightarrow> string \<Rightarrow> string list" where
  "planned_order c pageOptions urlToScrap =
     getScrapingFallbackOrder (env c) (forced_scraper c (url_key c urlToScrap))
       (case po_waitFor pageOptions of None \<Rightarrow> False | Some n \<Rightarrow> n \<noteq> 0 \<and> 0 < n)
       (po_screenshot pageOptions = Some True)
       (po_headers pageOptions \<noteq> None)"

text \<open>\<^verbatim>\<open>scrapSingleUrl\<close> (lines 456-700), from the trace \<open>tr\<close>: the document returned and
  the trace afterwards. Everything after the declaration of the variables is inside the
  \<^verbatim>\<open>try\<close>; an exception, that of line 650 included, reaches the \<^verbatim>\<open>catch\<close> block, which
  reads the variables as they are then.\<close>

definition scrapSingleUrl ::
  "collaborators \<Rightarrow> string \<Rightarrow> PageOptions \<Rightarrow> string \<Rightarrow> string \<Rightarrow> call list \<Rightarrow> Document \<times> call list" where
  "scrapSingleUrl c url pageOptions mode existingHtml tr =
     (let urlToScrap = trim url;
          scrapersInOrder = planned_order c pageOptions urlToScrap
      in case scrape_loop c pageOptions existingHtml urlToScrap scrapersInOrder initial_vars tr of
           (Some e, v, tr') \<Rightarrow> (degraded_document urlToScrap v, tr')
         | (None, v, tr') \<Rightarrow>
             (case (if var_text v = []
                    then Inl (Error (''All scraping methods failed for URL: '' @ urlToScrap))
                    else (case extractMetadata c (var_rawHtml v) urlToScrap of
                            Inl e \<Rightarrow> Inl e
                          | Inr metadata \<Rightarrow>
                              Inr (build_document pageOptions mode urlToScrap v metadata)))
              of Inl error \<Rightarrow> (degraded_document urlToScrap v, tr')
               | Inr document \<Rightarrow> (document, tr')))"

subsection \<open>The loop as the specification words it\<close>

text \<open>The judging step as the specification states it (section 4.5), for comparison with
  \<open>scrape_loop\<close>: the attempt's text, trimmed, of length at least 100 stops the loop; otherwise
  the attempt's own status code 404 stops it; otherwise the next planned backend is tried.\<close>

fun spec_loop ::
  "collaborators \<Rightarrow> PageOptions \<Rightarrow> string \<Rightarrow> string \<Rightarrow> string list \<Rightarrow> loop_vars \<Rightarrow> call list
     \<Rightarrow> exn option \<times> loop_vars \<times> call list" where
  "spec_loop c pageOptions existingHtml urlToScrap [] v tr = (None, v, tr)"
| "spec_loop c pageOptions existingHtml urlToScrap (scraper # rest) v tr =
     (if 100 \<le> length (trim existingHtml) then
        (case removeUnwantedElements c existingHtml pageOptions of
           Inl e \<Rightarrow> (Some e, v, tr)
         | Inr cleanedHtml \<Rightarrow>
             (case parseMarkdown c cleanedHtml of
                Inl e \<Rightarrow> (Some e, v, tr)
              | Inr markdown \<Rightarrow> (None, v\<lparr>var_text := markdown, var_html := cleanedHtml\<rparr>, tr)))
      else
        (case attemptScraping c pageOptions urlToScrap scraper tr of
           (Inl e, tr') \<Rightarrow> (Some e, v, tr')
         | (Inr attempt, tr') \<Rightarrow>
             if 100 \<le> length (trim (att_text attempt)) then (None, fold_attempt v attempt, tr')
             else if att_pageStatusCode attempt = Some 404 then (None, fold_attempt v attempt, tr')
             else spec_loop c pageOptions existingHtml urlToScrap rest (fold_attempt v attempt) tr'))"

text \<open>The invariant of the carried status and error: an error is carried only with a status
  of 400 or more.\<close>

definition error_implies_failure :: "loop_vars \<Rightarrow> bool" where
  "error_implies_failure v = (var_pageError v = None \<or> 400 \<le> var_pageStatusCode v)"

subsection \<open>Example inputs\<close>

text \<open>No backend is configured: only \<^verbatim>\<open>fetch\<close> is available.\<close>

definition no_env :: environment where
  "no_env = \<lparr>FIRE_ENGINE_BETA_URL = None, SCRAPING_BEE_API_KEY = None, PLAYWRIGHT_MICROSERVICE_URL = None\<rparr>"

definition example_pageOptions :: PageOptions where
  "example_pageOptions =
     \<lparr>po_onlyMainContent = Some True, po_includeHtml = Some False, po_includeRawHtml = Some False,
      po_waitFor = Some 0, po_screenshot = Some False, po_headers = None, po_fallback = None,
      po_parsePDF = None, po_scrollXPaths = None\<rparr>"

definition screenshot_pageOptions :: PageOptions where
  "screenshot_pageOptions = example_pageOptions\<lparr>po_screenshot := Some True\<rparr>"

text \<open>Collaborators with no backend configured, whose plain fetch returns no content with the
  given status and error, whose hook never redirects, and whose cleaning and conversion are the
  identity.\<close>

definition failing_collaborators :: "int option \<Rightarrow> string option \<Rightarrow> collaborators" where
  "failing_collaborators status err =
     \<lparr>env = no_env,
      urlSpecificParams = Map.empty,
      url_hostname = (\<lambda>url. None),
      scrapWithFireEngine = (\<lambda>tr args. Inl (Error ''unreachable'')),
      scrapWithScrapingBee = (\<lambda>tr url wait_browser timeout. Inl (Error ''unreachable'')),
      scrapWithPlaywright = (\<lambda>tr url waitFor headers. Inl (Error ''unreachable'')),
      scrapWithFetch = (\<lambda>tr url. Inr \<lparr>sr_content = [], sr_pageStatusCode = status, sr_pageError = err\<rparr>),
      fetchAndProcessPdf = (\<lambda>tr url parse. Inl (Error ''unreachable'')),
      handleCustomScraping = (\<lambda>tr text url. Inr None),
      removeUnwantedElements = (\<lambda>html po. Inr html),
      parseMarkdown = (\<lambda>html. Inr html),
      extractMetadata = (\<lambda>html url. Inr Map.empty)\<rparr>"

text \<open>Collaborators with the render service configured. The render service returns the URL as
  content with a screenshot, or, asked without a screenshot, the text \<^verbatim>\<open>rendered\<close> and
  no screenshot; plain fetch returns the URL as content. The hook redirects the content
  \<^verbatim>\<open>readme\<close> to the render service and the content \<^verbatim>\<open>drive\<close> to the PDF extractor.\<close>

definition override_collaborators :: collaborators where
  "override_collaborators =
     \<lparr>env = \<lparr>FIRE_ENGINE_BETA_URL = Some ''http://fire-engine'', SCRAPING_BEE_API_KEY = None,
              PLAYWRIGHT_MICROSERVICE_URL = None\<rparr>,
      urlSpecificParams = Map.empty,
      url_hostname = (\<lambda>url. None),
      scrapWithFireEngine = (\<lambda>tr args.
         if arg_screenshot args = Some False
         then Inr \<lparr>fe_html = ''rendered'', fe_screenshot = [], fe_pageStatusCode = Some 200,
                   fe_pageError = None\<rparr>
         else Inr \<lparr>fe_html = arg_url args, fe_screenshot = ''shot'', fe_pageStatusCode = Some 200,
                   fe_pageError = None\<rparr>),
      scrapWithScrapingBee = (\<lambda>tr url wait_browser timeout. Inl (Error ''unreachable'')),
      scrapWithPlaywright = (\<lambda>tr url waitFor headers. Inl (Error ''unreachable'')),
      scrapWithFetch = (\<lambda>tr url. Inr \<lparr>sr_content = url, sr_pageStatusCode = Some 200, sr_pageError = None\<rparr>),
      fetchAndProcessPdf = (\<lambda>tr url parse.
         Inr \<lparr>sr_content = ''pdf text'', sr_pageStatusCode = Some 200, sr_pageError = None\<rparr>),
      handleCustomScraping = (\<lambda>tr text url.
         if text = ''readme'' then
           Inr (Some \<lparr>d_scraper = ''fire-engine'', d_url = url, d_waitAfterLoad = Some 1000,
                       d_pageOptions = None\<rparr>)
         else if text = ''drive'' then
           Inr (Some \<lparr>d_scraper = ''pdf'', d_url = ''drive.pdf'', d_waitAfterLoad = None,
                       d_pageOptions = None\<rparr>)
         else Inr None),
      removeUnwantedElements = (\<lambda>html po. Inr html),
      parseMarkdown = (\<lambda>html. Inr html),
      extractMetadata = (\<lambda>html url. Inr Map.empty)\<rparr>"

text \<open>Every backend is configured.\<close>

definition all_env :: environment where
  "all_env = \<lparr>FIRE_ENGINE_BETA_URL = Some ''http://fire-engine'', SCRAPING_BEE_API_KEY = Some ''key'',
               PLAYWRIGHT_MICROSERVICE_URL = Some ''http://playwright''\<rparr>"

text \<open>An attempt without content, with the given status code and page error.\<close>

definition example_attempt :: "int option \<Rightarrow> string option \<Rightarrow> attempt" where
  "example_attempt status err =
     \<lparr>att_text = [], att_html = [], att_rawHtml = [], att_screenshot = [],
      att_pageStatusCode = status, att_pageError = err\<rparr>"

text \<open>Collaborators with an override entry for \<^verbatim>\<open>example.com\<close>, no entry for
  \<^verbatim>\<open>other.org\<close>, and a URL parser that rejects everything else.\<close>

definition resolver_collaborators :: collaborators where
  "resolver_collaborators =
     (failing_collaborators None None)
       \<lparr>urlSpecificParams :=
          [''example.com'' \<mapsto>
             [''params'' \<mapsto> JObj [(''wait'', JNum 1000)], ''defaultScraper'' \<mapsto> JStr ''playwright'']],
        url_hostname := (\<lambda>url. if url = ''https://www.example.com/docs'' then Some ''www.example.com''
                             else if url = ''https://other.org/'' then Some ''other.org''
                             else None)\<rparr>"

subsection \<open>Facts about the planner\<close>

lemma set_add_distinct: "distinct acc \<Longrightarrow> distinct (set_add acc x)"
  by (simp add: set_add_def)

lemma set_set_add: "set (set_add acc x) = insert x (set acc)"
  by (auto simp: set_add_def)

lemma foldl_set_add_distinct: "distinct acc \<Longrightarrow> distinct (foldl set_add acc xs)"
  by (induction xs arbitrary: acc) (simp_all add: set_add_distinct)

lemma foldl_set_add_set: "set (foldl set_add acc xs) = set acc \<union> set xs"
  by (induction xs arbitrary: acc) (auto simp: set_set_add)

lemma new_Set_distinct: "distinct (new_Set xs)"
  by (simp add: new_Set_def foldl_set_add_distinct)

lemma new_Set_set: "set (new_Set xs) = set xs"
  by (simp add: new_Set_def foldl_set_add_set)

lemma foldl_set_add_Cons:
  "foldl set_add (d # acc) xs = d # foldl set_add acc (filter (\<lambda>x. x \<noteq> d) xs)"
  by (induction xs arbitrary: acc) (auto simp: set_add_def)

lemma foldl_set_add_filter:
  "foldl set_add (filter P acc) (filter P xs) = filter P (foldl set_add acc xs)"
proof (induction xs arbitrary: acc)
  case Nil
  show ?case by simp
next
  case (Cons a xs)
  show ?case
  proof (cases "P a")
    case True
    have "filter P (set_add acc a) = set_add (filter P acc) a"
      using True by (simp add: set_add_def)
    then show ?thesis using True Cons.IH [of "set_add acc a"] by simp
  next
    case False
    have "filter P (set_add acc a) = filter P acc"
      using False by (simp add: set_add_def)
    then show ?thesis using False Cons.IH [of "set_add acc a"] by simp
  qed
qed

lemma new_Set_filter: "new_Set (filter P xs) = filter P (new_Set xs)"
  using foldl_set_add_filter [of P "[]" xs] by (simp add: new_Set_def)

lemma new_Set_forced: "new_Set (d # xs) = d # filter (\<lambda>x. x \<noteq> d) (new_Set xs)"
  by (simp add: new_Set_def set_add_def foldl_set_add_Cons new_Set_filter [unfolded new_Set_def])

lemma plan_forced:
  "d \<noteq> [] \<Longrightarrow> getScrapingFallbackOrder e d w s h = d # filter (\<lambda>x. x \<noteq> d) (getScrapingFallbackOrder e [] w s h)"
  by (simp add: getScrapingFallbackOrder_def Let_def new_Set_forced)

lemma plan_distinct: "distinct (getScrapingFallbackOrder e d w s h)"
  by (simp add: getScrapingFallbackOrder_def Let_def new_Set_distinct)

lemma avail_cases:
  "availableScrapers e =
     (if env_set (FIRE_ENGINE_BETA_URL e) then [''fire-engine''] else []) @
     (if env_set (SCRAPING_BEE_API_KEY e) then [''scrapingBee''] else []) @
     (if env_set (PLAYWRIGHT_MICROSERVICE_URL e) then [''playwright''] else []) @
     (if env_set (SCRAPING_BEE_API_KEY e) then [''scrapingBeeLoad''] else []) @ [''fetch'']"
  by (simp add: availableScrapers_def baseScrapers_def scraper_available_def)

lemma plan_noforce:
  "getScrapingFallbackOrder e [] w s h =
     filter (scraper_available e)
       (if w \<or> s \<or> h then [''fire-engine'', ''playwright'', ''scrapingBee'', ''scrapingBeeLoad'', ''fetch'']
        else [''scrapingBee'', ''fire-engine'', ''playwright'', ''scrapingBeeLoad'', ''fetch''])"
  by (simp add: getScrapingFallbackOrder_def Let_def avail_cases initialOrder_def new_Set_def set_add_def scraper_available_def)

lemma sufficient_iff: "sufficient t = (100 \<le> length (trim t))"
  by (auto simp: sufficient_def trim_def)

lemma fold_attempt_text [simp]: "var_text (fold_attempt v a) = att_text a"
  by (simp add: fold_attempt_def Let_def split: option.splits)

lemma fold_attempt_status:
  "var_pageStatusCode (fold_attempt v a) =
     (case att_pageStatusCode a of None \<Rightarrow> var_pageStatusCode v
      | Some n \<Rightarrow> if n \<noteq> 0 then n else var_pageStatusCode v)"
  by (simp add: fold_attempt_def Let_def split: option.splits)

lemma fold_attempt_404:
  "var_pageStatusCode v \<noteq> 404 \<Longrightarrow>
   (var_pageStatusCode (fold_attempt v a) = 404) = (att_pageStatusCode a = Some 404)"
  by (auto simp: fold_attempt_status split: option.splits)

lemma scrape_loop_spec:
  "var_pageStatusCode v \<noteq> 404 \<Longrightarrow>
   scrape_loop c po ex url ss v tr = spec_loop c po ex url ss v tr"
proof (induction ss arbitrary: v tr)
  case Nil
  show ?case by simp
next
  case (Cons s ss)
  show ?case
  proof (cases "sufficient ex")
    case True
    then show ?thesis by (simp add: sufficient_iff)
  next
    case False
    obtain r tr' where att: "attemptScraping c po url s tr = (r, tr')" by (cases "attemptScraping c po url s tr")
    show ?thesis
    proof (cases r)
      case (Inl e)
      then show ?thesis using False att by (simp add: sufficient_iff)
    next
      case (Inr a)
      have k: "(var_pageStatusCode (fold_attempt v a) = 404) = (att_pageStatusCode a = Some 404)"
        using Cons.prems by (rule fold_attempt_404)
      show ?thesis
      proof (cases "att_pageStatusCode a = Some 404 \<or> 100 \<le> length (trim (att_text a))")
        case True
        then show ?thesis using False att Inr k by (auto simp: sufficient_iff Let_def)
      next
        case False2: False
        then have "var_pageStatusCode (fold_attempt v a) \<noteq> 404" using k by simp
        then have "scrape_loop c po ex url ss (fold_attempt v a) tr' = spec_loop c po ex url ss (fold_attempt v a) tr'"
          by (rule Cons.IH)
        then show ?thesis using False False2 att Inr k by (simp add: sufficient_iff Let_def)
      qed
    qed
  qed
qed


lemma scrape_loop_step:
  "\<not> sufficient ex \<Longrightarrow> attemptScraping c po url s tr = (Inr a, tr1) \<Longrightarrow>
   scrape_loop c po ex url (s # ss) v tr =
     (if sufficient (att_text a) \<or> var_pageStatusCode (fold_attempt v a) = 404
      then (None, fold_attempt v a, tr1)
      else scrape_loop c po ex url ss (fold_attempt v a) tr1)"
  by (simp add: Let_def)

lemma scrape_loop_throw:
  "\<not> sufficient ex \<Longrightarrow> attemptScraping c po url s tr = (Inl e, tr1) \<Longrightarrow>
   scrape_loop c po ex url (s # ss) v tr = (Some e, v, tr1)"
  by simp

lemma loop_attempts_step:
  "\<not> sufficient ex \<Longrightarrow> attemptScraping c po url s tr = (Inr a, tr1) \<Longrightarrow>
   loop_attempts c po ex url (s # ss) v tr =
     (if sufficient (att_text a) \<or> var_pageStatusCode (fold_attempt v a) = 404
      then [a]
      else a # loop_attempts c po ex url ss (fold_attempt v a) tr1)"
  by (simp add: Let_def)

lemma loop_attempts_throw:
  "\<not> sufficient ex \<Longrightarrow> attemptScraping c po url s tr = (Inl e, tr1) \<Longrightarrow>
   loop_attempts c po ex url (s # ss) v tr = []"
  by simp

lemma loop_attempts_short:
  "sufficient ex \<Longrightarrow> loop_attempts c po ex url ss v tr = []"
  by (cases ss) simp_all


lemma loop_carried:
  "scrape_loop c po ex url ss v tr = (thrown, v', tr') \<Longrightarrow>
   var_pageStatusCode v' = var_pageStatusCode (foldl fold_attempt v (loop_attempts c po ex url ss v tr)) \<and>
   var_pageError v' = var_pageError (foldl fold_attempt v (loop_attempts c po ex url ss v tr))"
proof (induction ss arbitrary: v tr)
  case Nil
  then show ?case by simp
next
  case (Cons s ss)
  show ?case
  proof (cases "sufficient ex")
    case True
    have "var_pageStatusCode (fst (snd (scrape_loop c po ex url (s # ss) v tr))) = var_pageStatusCode v \<and>
          var_pageError (fst (snd (scrape_loop c po ex url (s # ss) v tr))) = var_pageError v"
      using True by (simp split: sum.splits)
    then have "var_pageStatusCode v' = var_pageStatusCode v \<and> var_pageError v' = var_pageError v"
      unfolding Cons.prems by simp
    then show ?thesis unfolding loop_attempts_short [OF True] by simp
  next
    case False
    obtain r tr1 where att: "attemptScraping c po url s tr = (r, tr1)"
      by (cases "attemptScraping c po url s tr")
    show ?thesis
    proof (cases r)
      case (Inl e)
      have "v' = v"
        using Cons.prems unfolding scrape_loop_throw [OF False att [unfolded Inl]] by simp
      then show ?thesis
        unfolding loop_attempts_throw [OF False att [unfolded Inl]] by simp
    next
      case (Inr a)
      note st = scrape_loop_step [OF False att [unfolded Inr], of ss v]
      note la = loop_attempts_step [OF False att [unfolded Inr], of ss v]
      show ?thesis
      proof (cases "sufficient (att_text a) \<or> var_pageStatusCode (fold_attempt v a) = 404")
        case True
        have "v' = fold_attempt v a"
          using Cons.prems True unfolding st by (simp del: scrape_loop.simps)
        moreover have "loop_attempts c po ex url (s # ss) v tr = [a]"
          using True unfolding la by (simp del: loop_attempts.simps)
        ultimately show ?thesis by (simp del: loop_attempts.simps)
      next
        case False2: False
        have 1: "scrape_loop c po ex url ss (fold_attempt v a) tr1 = (thrown, v', tr')"
          using Cons.prems False2 unfolding st by (simp del: scrape_loop.simps)
        have 2: "loop_attempts c po ex url (s # ss) v tr =
                 a # loop_attempts c po ex url ss (fold_attempt v a) tr1"
          using False2 unfolding la by (simp del: loop_attempts.simps)
        show ?thesis using Cons.IH [OF 1] unfolding 2 by simp
      qed
    qed
  qed
qed

lemma loop_text_empty:
  "scrape_loop c po ex url ss v tr = (thrown, v', tr') \<Longrightarrow> \<not> sufficient ex \<Longrightarrow> var_text v = [] \<Longrightarrow>
   \<forall>a \<in> set (loop_attempts c po ex url ss v tr). att_text a = [] \<Longrightarrow> var_text v' = []"
proof (induction ss arbitrary: v tr)
  case Nil
  then show ?case by simp
next
  case (Cons s ss)
  note ns = Cons.prems(2)
  obtain r tr1 where att: "attemptScraping c po url s tr = (r, tr1)"
    by (cases "attemptScraping c po url s tr")
  show ?case
  proof (cases r)
    case (Inl e)
    have "v' = v"
      using Cons.prems(1) unfolding scrape_loop_throw [OF ns att [unfolded Inl]] by simp
    then show ?thesis using Cons.prems(3) by simp
  next
    case (Inr a)
    note st = scrape_loop_step [OF ns att [unfolded Inr], of ss v]
    note la = loop_attempts_step [OF ns att [unfolded Inr], of ss v]
    have "a \<in> set (loop_attempts c po ex url (s # ss) v tr)"
      unfolding la by (simp del: loop_attempts.simps)
    then have 3: "att_text a = []" using Cons.prems(4) by blast
    show ?thesis
    proof (cases "sufficient (att_text a) \<or> var_pageStatusCode (fold_attempt v a) = 404")
      case True
      have "v' = fold_attempt v a"
        using Cons.prems(1) True unfolding st by (simp del: scrape_loop.simps)
      then show ?thesis using 3 by simp
    next
      case False
      have 1: "scrape_loop c po ex url ss (fold_attempt v a) tr1 = (thrown, v', tr')"
        using Cons.prems(1) False unfolding st by (simp del: scrape_loop.simps)
      have 2: "loop_attempts c po ex url (s # ss) v tr =
               a # loop_attempts c po ex url ss (fold_attempt v a) tr1"
        using False unfolding la by (simp del: loop_attempts.simps)
      have 4: "\<forall>a \<in> set (loop_attempts c po ex url ss (fold_attempt v a) tr1). att_text a = []"
        using Cons.prems(4) unfolding 2 by simp
      have 5: "var_text (fold_attempt v a) = []" using 3 by simp
      show ?thesis using Cons.IH [OF 1 ns 5 4] .
    qed
  qed
qed


lemma foldl_status_none:
  "\<forall>a \<in> set as. att_pageStatusCode a = None \<or> att_pageStatusCode a = Some 0 \<Longrightarrow>
   var_pageStatusCode (foldl fold_attempt v as) = var_pageStatusCode v"
  by (induction as arbitrary: v) (auto simp: fold_attempt_status)

lemma foldl_status_last:
  "att_pageStatusCode a = Some n \<Longrightarrow> n \<noteq> 0 \<Longrightarrow>
   \<forall>b \<in> set post. att_pageStatusCode b = None \<or> att_pageStatusCode b = Some 0 \<Longrightarrow>
   var_pageStatusCode (foldl fold_attempt v (pre @ [a] @ post)) = n"
  by (simp add: foldl_status_none fold_attempt_status)

lemma fold_attempt_inv: "error_implies_failure v \<Longrightarrow> error_implies_failure (fold_attempt v a)"
  by (auto simp: error_implies_failure_def fold_attempt_def Let_def js_ge_def js_lt_def split: option.splits)

lemma foldl_inv: "error_implies_failure v \<Longrightarrow> error_implies_failure (foldl fold_attempt v as)"
  by (induction as arbitrary: v) (simp_all add: fold_attempt_inv)

lemma fold_attempt_clears:
  "att_pageStatusCode a = Some n \<Longrightarrow> n < 400 \<Longrightarrow> var_pageError (fold_attempt v a) = None"
  by (simp add: fold_attempt_def Let_def js_ge_def js_lt_def)

lemma plan_nonempty: "getScrapingFallbackOrder e d w s h \<noteq> []"
proof -
  have "''fetch'' \<in> set (availableScrapers e)"
    by (simp add: avail_cases)
  then have "''fetch'' \<in> set (getScrapingFallbackOrder e d w s h)"
    by (simp add: getScrapingFallbackOrder_def Let_def new_Set_set)
  then show ?thesis by auto
qed

lemma loop_short_circuit:
  "sufficient ex \<Longrightarrow> ss \<noteq> [] \<Longrightarrow>
   scrape_loop c po ex url ss v tr =
     (case removeUnwantedElements c ex po of
        Inl e \<Rightarrow> (Some e, v, tr)
      | Inr cleanedHtml \<Rightarrow>
          (case parseMarkdown c cleanedHtml of
             Inl e \<Rightarrow> (Some e, v, tr)
           | Inr markdown \<Rightarrow> (None, v\<lparr>var_text := markdown, var_html := cleanedHtml\<rparr>, tr)))"
  by (cases ss) simp_all

lemma scrapSingleUrl_trace:
  "snd (scrapSingleUrl c url po mode ex tr) =
   snd (snd (scrape_loop c po ex (trim url) (planned_order c po (trim url)) initial_vars tr))"
  by (simp add: scrapSingleUrl_def Let_def split: prod.splits option.splits sum.splits)

lemma scrapSingleUrl_degraded:
  "scrape_loop c po ex (trim url) (planned_order c po (trim url)) initial_vars tr = (thrown, v, tr') \<Longrightarrow>
   var_text v = [] \<Longrightarrow>
   scrapSingleUrl c url po mode ex tr = (degraded_document (trim url) v, tr')"
  by (simp add: scrapSingleUrl_def Let_def split: option.splits)

lemma scrapSingleUrl_status:
  "scrape_loop c po ex (trim url) (planned_order c po (trim url)) initial_vars tr = (thrown, v, tr') \<Longrightarrow>
   doc_metadata (fst (scrapSingleUrl c url po mode ex tr)) ''pageStatusCode'' = Some (JNum (var_pageStatusCode v))"
  by (simp add: scrapSingleUrl_def Let_def degraded_document_def build_document_def split: option.splits sum.splits)


lemma call_scraper_no_hook:
  "call_scraper c po url method tr = (r, tr1) \<Longrightarrow>
   filter is_hook_call tr1 = filter is_hook_call tr"
  by (auto simp: call_scraper_def io_bind_def io_call_def io_return_def Let_def
      split: if_splits sum.splits)

lemma custom_scrape_none: "custom_scrape c po shot None tr = (Inr None, tr)"
  by (simp add: custom_scrape_def io_return_def)

lemma custom_scrape_fire_engine:
  "d_scraper d = ''fire-engine'' \<Longrightarrow> scrapWithFireEngine c tr (custom_fire_engine_args d) = Inr r \<Longrightarrow>
   custom_scrape c po [] (Some d) tr = (Inr (Some r), tr @ [Call_scrapWithFireEngine (custom_fire_engine_args d)])"
  by (simp add: custom_scrape_def io_return_def io_bind_def io_call_def Let_def)

lemma custom_scrape_pdf:
  "d_scraper d = ''pdf'' \<Longrightarrow> fetchAndProcessPdf c tr (d_url d) (po_parsePDF po) = Inr p \<Longrightarrow>
   custom_scrape c po [] (Some d) tr =
     (Inr (Some \<lparr>fe_html = sr_content p, fe_screenshot = [], fe_pageStatusCode = sr_pageStatusCode p,
                  fe_pageError = sr_pageError p\<rparr>),
      tr @ [Call_fetchAndProcessPdf (d_url d) (po_parsePDF po)])"
  by (simp add: custom_scrape_def io_return_def io_bind_def io_call_def Let_def)

lemma attemptScraping_after_hook:
  assumes "call_scraper c po url method tr = (Inr sr, tr1)"
      and "handleCustomScraping c tr1 (resp_text sr) url = Inr hk"
      and "custom_scrape c po [] hk (tr1 @ [Call_handleCustomScraping (resp_text sr) url]) = (Inr content, tr2)"
      and "removeUnwantedElements c (case content of Some r \<Rightarrow> fe_html r | None \<Rightarrow> resp_text sr) po = Inr cl"
      and "parseMarkdown c cl = Inr md"
  shows "attemptScraping c po url method tr =
     (Inr \<lparr>att_text = md, att_html = cl,
            att_rawHtml = (case content of Some r \<Rightarrow> fe_html r | None \<Rightarrow> resp_text sr),
            att_screenshot = resp_screenshot sr, att_pageStatusCode = resp_pageStatusCode sr,
            att_pageError = or_undefined (resp_pageError sr)\<rparr>, tr2)"
  using assms by (simp add: attemptScraping_def io_bind_def io_call_def io_pure_def io_return_def Let_def)


lemma dropWhile_hd: "xs \<noteq> [] \<Longrightarrow> \<not> P (hd xs) \<Longrightarrow> dropWhile P xs = xs"
  by (cases xs) simp_all

lemma trim_plain: "s \<noteq> [] \<Longrightarrow> \<not> js_whitespace (hd s) \<Longrightarrow> \<not> js_whitespace (last s) \<Longrightarrow> trim s = s"
proof -
  assume a: "s \<noteq> []" "\<not> js_whitespace (hd s)" "\<not> js_whitespace (last s)"
  have 1: "dropWhile js_whitespace s = s" using a(1,2) by (rule dropWhile_hd)
  have "hd (rev s) = last s" using a(1) by (simp add: hd_rev)
  then have 2: "dropWhile js_whitespace (rev s) = rev s" using a(1,3) by (simp add: dropWhile_hd)
  show ?thesis by (simp add: trim_def 1 2)
qed

lemma ws_a: "\<not> js_whitespace CHR ''a''"
  by (simp add: js_whitespace_def)

lemma trim_replicate_a: "0 < n \<Longrightarrow> trim (replicate n CHR ''a'') = replicate n CHR ''a''"
  by (rule trim_plain) (auto simp: ws_a hd_replicate last_replicate)

lemma plan_no_env: "planned_order (failing_collaborators st er) example_pageOptions u = [''fetch'']"
  by (simp add: planned_order_def failing_collaborators_def no_env_def example_pageOptions_def
      forced_scraper_def url_key_def plan_noforce scraper_available_def env_set_def)

lemma trim_empty: "trim [] = []" by (simp add: trim_def)

lemma not_suff_empty: "\<not> sufficient []" by (simp add: sufficient_def)

lemma attempt_failing:
  "attemptScraping (failing_collaborators st er) example_pageOptions u ''fetch'' [] =
     (Inr \<lparr>att_text = [], att_html = [], att_rawHtml = [], att_screenshot = [],
            att_pageStatusCode = st, att_pageError = or_undefined er\<rparr>,
      [Call_scrapWithFetch u, Call_handleCustomScraping [] u])"
  by (simp add: attemptScraping_def call_scraper_def custom_scrape_def failing_collaborators_def
      io_bind_def io_call_def io_pure_def io_return_def from_ScrapeResult_def)

lemma call_scraper_fe_example:
  "call_scraper override_collaborators screenshot_pageOptions ''readme'' ''fire-engine'' [] =
     (Inr \<lparr>resp_text = ''readme'', resp_screenshot = ''shot'', resp_pageStatusCode = Some 200,
            resp_pageError = None\<rparr>,
      [Call_scrapWithFireEngine
         \<lparr>arg_url = ''readme'', arg_waitFor = Some 0, arg_screenshot = Some True,
          arg_pageOptions = Some screenshot_pageOptions, arg_headers = None\<rparr>])"
  by (simp add: call_scraper_def override_collaborators_def screenshot_pageOptions_def
      example_pageOptions_def env_set_def io_bind_def io_call_def io_return_def Let_def)

lemma call_scraper_fetch_example:
  "call_scraper override_collaborators example_pageOptions u ''fetch'' [] =
     (Inr \<lparr>resp_text = u, resp_screenshot = [], resp_pageStatusCode = Some 200,
            resp_pageError = None\<rparr>, [Call_scrapWithFetch u])"
  by (simp add: call_scraper_def override_collaborators_def from_ScrapeResult_def
      io_bind_def io_call_def io_return_def)

lemma all_env_available: "scraper_available all_env x"
  by (simp add: scraper_available_def all_env_def env_set_def)

lemma strip_www_example: "strip_www ''www.example.com'' = ''example.com''"
  by (simp add: strip_www_def)

lemma strip_www_other: "strip_www ''other.org'' = ''other.org''"
  by (simp add: strip_www_def)

lemma loop_failing:
  "\<not> sufficient (att_text (example_attempt st (or_undefined er))) \<Longrightarrow>
   scrape_loop (failing_collaborators st er) example_pageOptions [] u [''fetch''] v [] =
     (None, fold_attempt v (example_attempt st (or_undefined er)),
      [Call_scrapWithFetch u, Call_handleCustomScraping [] u])"
  by (simp add: not_suff_empty attempt_failing example_attempt_def Let_def)

lemma loop_attempts_failing:
  "\<not> sufficient (att_text (example_attempt st (or_undefined er))) \<Longrightarrow>
   loop_attempts (failing_collaborators st er) example_pageOptions [] u [''fetch''] v [] =
     [example_attempt st (or_undefined er)]"
  by (simp add: not_suff_empty attempt_failing example_attempt_def Let_def)

lemma trim_url_example: "trim ''https://example.com/'' = ''https://example.com/''"
  by (rule trim_plain) (simp_all add: js_whitespace_def)

section \<open>The claims\<close>

text \<open>
  C1. From the initial variables, the loop of the source is the loop that judges every attempt
  as the specification says: a text whose trimmed length is at least 100 stops the loop;
  otherwise the attempt's status code 404 stops it, with no further backend called; otherwise
  the next planned backend is tried. A trimmed length of exactly 100 is sufficient, 99 is not.
  (The source tests the carried status code; it is 404 exactly when the attempt's is, since
  the loop never continues with a carried 404.)
\<close>

theorem judging_follows_spec:
  "scrape_loop c pageOptions existingHtml urlToScrap scrapers initial_vars tr =
     spec_loop c pageOptions existingHtml urlToScrap scrapers initial_vars tr \<and>
   (length (trim text) = 100 \<longrightarrow> sufficient text) \<and>
   (length (trim text') = 99 \<longrightarrow> \<not> sufficient text')"
proof -
  have "var_pageStatusCode initial_vars \<noteq> 404" by (simp add: initial_vars_def)
  then show ?thesis by (simp add: scrape_loop_spec sufficient_iff)
qed

theorem judging_follows_spec_witness:
  "scrape_loop (failing_collaborators (Some 404) None) example_pageOptions [] ''u''
      [''fetch'', ''fetch''] initial_vars [] =
     (None, initial_vars\<lparr>var_pageStatusCode := 404\<rparr>,
      [Call_scrapWithFetch ''u'', Call_handleCustomScraping [] ''u'']) \<and>
   length (trim (replicate 100 CHR ''a'')) = 100 \<and> sufficient (replicate 100 CHR ''a'') \<and>
   length (trim (replicate 99 CHR ''a'')) = 99 \<and> \<not> sufficient (replicate 99 CHR ''a'')"
  using judging_follows_spec [of "failing_collaborators (Some 404) None" example_pageOptions "[]" "''u''"
      "[''fetch'', ''fetch'']" "[]" "replicate 100 CHR ''a''" "replicate 99 CHR ''a''"]
  by (simp add: trim_replicate_a trim_empty attempt_failing or_undefined_def fold_attempt_def
      initial_vars_def js_ge_def js_lt_def Let_def)

text \<open>
  C2. When the pre-fetched content is not sufficient and every attempt of the loop yields an
  empty text, \<open>scrapSingleUrl\<close> returns (it is a total function: every exception of the body
  reaches the \<^verbatim>\<open>catch\<close> block) the document with empty \<^verbatim>\<open>content\<close> and \<^verbatim>\<open>markdown\<close>, whose
  metadata are \<^verbatim>\<open>sourceURL\<close>, the carried \<^verbatim>\<open>pageStatusCode\<close> and the carried \<^verbatim>\<open>pageError\<close>.
\<close>

theorem exhausted_returns_degraded_document:
  assumes "\<not> sufficient existingHtml"
      and "\<forall>a \<in> set (loop_attempts c pageOptions existingHtml (trim url)
                      (planned_order c pageOptions (trim url)) initial_vars tr). att_text a = []"
  shows "fst (scrapSingleUrl c url pageOptions mode existingHtml tr) =
     \<lparr>doc_content = [], doc_markdown = [], doc_html = Some [], doc_rawHtml = None,
      doc_metadata =
        [''sourceURL'' \<mapsto> JStr (trim url),
         ''pageStatusCode'' \<mapsto> JNum (var_pageStatusCode (foldl fold_attempt initial_vars
            (loop_attempts c pageOptions existingHtml (trim url)
               (planned_order c pageOptions (trim url)) initial_vars tr))),
         ''pageError'' \<mapsto> js_string_option (var_pageError (foldl fold_attempt initial_vars
            (loop_attempts c pageOptions existingHtml (trim url)
               (planned_order c pageOptions (trim url)) initial_vars tr)))]\<rparr>"
proof -
  obtain thrown v tr' where run:
    "scrape_loop c pageOptions existingHtml (trim url) (planned_order c pageOptions (trim url))
       initial_vars tr = (thrown, v, tr')"
    by (cases "scrape_loop c pageOptions existingHtml (trim url)
                 (planned_order c pageOptions (trim url)) initial_vars tr") auto
  have "var_text initial_vars = []" by (simp add: initial_vars_def)
  then have "var_text v = []" using loop_text_empty [OF run assms(1) _ assms(2)] by simp
  then have "scrapSingleUrl c url pageOptions mode existingHtml tr = (degraded_document (trim url) v, tr')"
    using run by (rule scrapSingleUrl_degraded [rotated])
  then show ?thesis using loop_carried [OF run] by (simp add: degraded_document_def)
qed

theorem exhausted_returns_degraded_document_witness:
  "\<not> sufficient [] \<and>
   loop_attempts (failing_collaborators (Some 500) (Some ''Internal Server Error'')) example_pageOptions []
       (trim ''https://example.com/'')
       (planned_order (failing_collaborators (Some 500) (Some ''Internal Server Error''))
          example_pageOptions (trim ''https://example.com/'')) initial_vars [] =
     [example_attempt (Some 500) (Some ''Internal Server Error'')] \<and>
   att_text (example_attempt (Some 500) (Some ''Internal Server Error'')) = [] \<and>
   fst (scrapSingleUrl (failing_collaborators (Some 500) (Some ''Internal Server Error''))
          ''https://example.com/'' example_pageOptions ''llm-extraction-from-markdown'' [] []) =
     \<lparr>doc_content = [], doc_markdown = [], doc_html = Some [], doc_rawHtml = None,
      doc_metadata =
        [''sourceURL'' \<mapsto> JStr ''https://example.com/'',
         ''pageStatusCode'' \<mapsto> JNum 500,
         ''pageError'' \<mapsto> JStr ''Internal Server Error'']\<rparr>"
  using exhausted_returns_degraded_document [of "[]"
      "failing_collaborators (Some 500) (Some ''Internal Server Error'')" example_pageOptions
      "''https://example.com/''" "[]" "''llm-extraction-from-markdown''"]
  by (simp add: not_suff_empty plan_no_env loop_attempts_failing trim_url_example
      example_attempt_def or_undefined_def fold_attempt_def initial_vars_def js_ge_def js_lt_def
      js_string_option_def Let_def del: loop_attempts.simps)

text \<open>
  C3. With no backend configured and an override entry that forces \<^verbatim>\<open>fire-engine\<close>, the
  planner returns \<^verbatim>\<open>fire-engine\<close> first, although \<^verbatim>\<open>FIRE_ENGINE_BETA_URL\<close> is unset: the
  forced backend is inserted without the availability test that the other entries pass.
\<close>

theorem forced_backend_unavailable:
  "getScrapingFallbackOrder no_env ''fire-engine'' False False False = [''fire-engine'', ''fetch'']
   \<and> \<not> scraper_available no_env ''fire-engine''"
  by (simp add: plan_forced plan_noforce scraper_available_def env_set_def no_env_def)

text \<open>
  C4. The planner's output has no duplicates; when a backend is forced (\<open>defaultScraper\<close> is
  not the empty string), the output is the forced backend followed by the unforced plan
  without it, so the forced backend is first and first occurrences keep their order.
\<close>

theorem forced_first_no_duplicates:
  "distinct (getScrapingFallbackOrder e defaultScraper w s h) \<and>
   (defaultScraper \<noteq> [] \<longrightarrow>
      getScrapingFallbackOrder e defaultScraper w s h =
        defaultScraper # filter (\<lambda>x. x \<noteq> defaultScraper) (getScrapingFallbackOrder e [] w s h))"
  by (simp add: plan_distinct plan_forced)

theorem forced_first_no_duplicates_witness:
  "''playwright'' \<noteq> [] \<and>
   getScrapingFallbackOrder all_env ''playwright'' False False False =
     [''playwright'', ''scrapingBee'', ''fire-engine'', ''scrapingBeeLoad'', ''fetch''] \<and>
   distinct (getScrapingFallbackOrder all_env ''playwright'' False False False)"
  using forced_first_no_duplicates [of all_env "''playwright''" False False False]
  by (simp add: plan_noforce all_env_available)

text \<open>
  C5 (as amended). After any sequence of attempts folded into the initial variables, a page
  error is carried only with a carried status code of 400 or more; an attempt with a status
  code below 400 clears the carried error; the carried status code is that of the most recent
  attempt whose status code is neither absent nor 0, and the initial 200 when there is none;
  and the variables the loop ends with carry the status and error of this fold over its
  attempts.
\<close>

theorem carried_status_and_error:
  "(var_pageError (foldl fold_attempt initial_vars attempts) \<noteq> None \<longrightarrow>
      400 \<le> var_pageStatusCode (foldl fold_attempt initial_vars attempts)) \<and>
   (att_pageStatusCode a = Some n \<and> n < 400 \<longrightarrow> var_pageError (fold_attempt v a) = None) \<and>
   (att_pageStatusCode a = Some n \<and> n \<noteq> 0 \<and>
    (\<forall>b \<in> set later. att_pageStatusCode b = None \<or> att_pageStatusCode b = Some 0) \<longrightarrow>
      var_pageStatusCode (foldl fold_attempt v (earlier @ [a] @ later)) = n) \<and>
   ((\<forall>b \<in> set attempts. att_pageStatusCode b = None \<or> att_pageStatusCode b = Some 0) \<longrightarrow>
      var_pageStatusCode (foldl fold_attempt initial_vars attempts) = 200) \<and>
   (scrape_loop c pageOptions existingHtml urlToScrap scrapers initial_vars tr = (thrown, v', tr') \<longrightarrow>
      var_pageStatusCode v' = var_pageStatusCode (foldl fold_attempt initial_vars
        (loop_attempts c pageOptions existingHtml urlToScrap scrapers initial_vars tr)) \<and>
      var_pageError v' = var_pageError (foldl fold_attempt initial_vars
        (loop_attempts c pageOptions existingHtml urlToScrap scrapers initial_vars tr)))"
proof -
  have "error_implies_failure initial_vars"
    by (simp add: error_implies_failure_def initial_vars_def)
  then have "error_implies_failure (foldl fold_attempt initial_vars attempts)"
    by (rule foldl_inv)
  then have 1: "var_pageError (foldl fold_attempt initial_vars attempts) \<noteq> None \<longrightarrow>
      400 \<le> var_pageStatusCode (foldl fold_attempt initial_vars attempts)"
    by (auto simp: error_implies_failure_def)
  have 4: "(\<forall>b \<in> set attempts. att_pageStatusCode b = None \<or> att_pageStatusCode b = Some 0) \<longrightarrow>
      var_pageStatusCode (foldl fold_attempt initial_vars attempts) = 200"
    using foldl_status_none [of attempts initial_vars] by (simp add: initial_vars_def)
  show ?thesis using 1 4 fold_attempt_clears [of a n v] foldl_status_last [of a n later v earlier]
      loop_carried [of c pageOptions existingHtml urlToScrap scrapers initial_vars tr thrown v' tr']
    by blast
qed

theorem carried_status_and_error_witness:
  "var_pageError (foldl fold_attempt initial_vars
      [example_attempt (Some 503) (Some ''Service Unavailable'')]) = Some ''Service Unavailable'' \<and>
   var_pageStatusCode (foldl fold_attempt initial_vars
      [example_attempt (Some 503) (Some ''Service Unavailable'')]) = 503 \<and>
   var_pageError (fold_attempt
      (fold_attempt initial_vars (example_attempt (Some 503) (Some ''Service Unavailable'')))
      (example_attempt (Some 200) None)) = None \<and>
   var_pageStatusCode (foldl fold_attempt initial_vars
      ([] @ [example_attempt (Some 503) (Some ''Service Unavailable'')] @ [example_attempt None None])) = 503 \<and>
   var_pageStatusCode (foldl fold_attempt initial_vars [example_attempt None None]) = 200 \<and>
   scrape_loop (failing_collaborators (Some 500) (Some ''Internal Server Error'')) example_pageOptions []
      ''u'' [''fetch''] initial_vars [] =
     (None, initial_vars\<lparr>var_pageStatusCode := 500, var_pageError := Some ''Internal Server Error''\<rparr>,
      [Call_scrapWithFetch ''u'', Call_handleCustomScraping [] ''u''])"
  using
    carried_status_and_error [of "[example_attempt (Some 503) (Some ''Service Unavailable'')]"
      "example_attempt (Some 200) None" 200
      "fold_attempt initial_vars (example_attempt (Some 503) (Some ''Service Unavailable''))"
      "[]" "[]"
      "failing_collaborators (Some 500) (Some ''Internal Server Error'')" example_pageOptions "[]" "''u''"
      "[''fetch'']" "[]" None
      "initial_vars\<lparr>var_pageStatusCode := 500, var_pageError := Some ''Internal Server Error''\<rparr>"
      "[Call_scrapWithFetch ''u'', Call_handleCustomScraping [] ''u'']"]
    carried_status_and_error [of "[example_attempt None None]"
      "example_attempt (Some 503) (Some ''Service Unavailable'')" 503 initial_vars
      "[example_attempt None None]" "[]"]
  by (simp add: example_attempt_def fold_attempt_def initial_vars_def or_undefined_def js_ge_def
      js_lt_def Let_def not_suff_empty attempt_failing)

text \<open>
  C5 as stated fails: an attempt that reports the status code 0 reports a non-null status
  code, yet the carried status code stays what it was (503 after a failed attempt, the initial
  200 otherwise), since \<^verbatim>\<open>if (attempt.pageStatusCode)\<close> is false for 0.
\<close>

theorem carried_status_zero_counterexample:
  "att_pageStatusCode (example_attempt (Some 0) None) = Some 0 \<and>
   var_pageStatusCode
     (foldl fold_attempt initial_vars
        [example_attempt (Some 503) (Some ''Service Unavailable''), example_attempt (Some 0) None]) = 503 \<and>
   var_pageStatusCode (fold_attempt initial_vars (example_attempt (Some 0) None)) = 200"
  by (simp add: example_attempt_def fold_attempt_def initial_vars_def or_undefined_def js_ge_def
      js_lt_def Let_def)

text \<open>
  C6 (as amended). Given the response \<open>sr\<close> of the planned backend, whose call adds no call
  of the hook to the trace, the hook is called once on its text. When it returns a directive for \<^verbatim>\<open>fire-engine\<close> (or \<^verbatim>\<open>pdf\<close>), exactly one more
  call follows, to the render service (or the PDF extractor) with the directive's parameters, and
  the attempt's raw content, cleaned content and text are those of that fetch; a non-empty
  screenshot of the planned backend is kept. When the hook returns nothing, no call follows, and
  the content and the screenshot are those of the planned backend.
\<close>

theorem override_replaces_content:
  assumes "call_scraper c po url method tr = (Inr sr, tr1)"
  shows
   "filter is_hook_call tr1 = filter is_hook_call tr
  \<and> (handleCustomScraping c tr1 (resp_text sr) url = Inr (Some d) \<and> d_scraper d = ''fire-engine'' \<and>
     scrapWithFireEngine c (tr1 @ [Call_handleCustomScraping (resp_text sr) url]) (custom_fire_engine_args d) = Inr r \<and>
     removeUnwantedElements c (fe_html r) po = Inr cl \<and> parseMarkdown c cl = Inr md \<longrightarrow>
       (\<exists>a. attemptScraping c po url method tr =
              (Inr a, tr1 @ [Call_handleCustomScraping (resp_text sr) url,
                             Call_scrapWithFireEngine (custom_fire_engine_args d)]) \<and>
            att_rawHtml a = fe_html r \<and> att_html a = cl \<and> att_text a = md \<and>
            (resp_screenshot sr \<noteq> [] \<longrightarrow> att_screenshot a = resp_screenshot sr)))
  \<and> (handleCustomScraping c tr1 (resp_text sr) url = Inr (Some d) \<and> d_scraper d = ''pdf'' \<and>
     fetchAndProcessPdf c (tr1 @ [Call_handleCustomScraping (resp_text sr) url]) (d_url d) (po_parsePDF po) = Inr p \<and>
     removeUnwantedElements c (sr_content p) po = Inr cl \<and> parseMarkdown c cl = Inr md \<longrightarrow>
       (\<exists>a. attemptScraping c po url method tr =
              (Inr a, tr1 @ [Call_handleCustomScraping (resp_text sr) url,
                             Call_fetchAndProcessPdf (d_url d) (po_parsePDF po)]) \<and>
            att_rawHtml a = sr_content p \<and> att_html a = cl \<and> att_text a = md \<and>
            (resp_screenshot sr \<noteq> [] \<longrightarrow> att_screenshot a = resp_screenshot sr)))
  \<and> (handleCustomScraping c tr1 (resp_text sr) url = Inr None \<and>
     removeUnwantedElements c (resp_text sr) po = Inr cl \<and> parseMarkdown c cl = Inr md \<longrightarrow>
       (\<exists>a. attemptScraping c po url method tr =
              (Inr a, tr1 @ [Call_handleCustomScraping (resp_text sr) url]) \<and>
            att_rawHtml a = resp_text sr \<and> att_html a = cl \<and> att_text a = md \<and>
            att_screenshot a = resp_screenshot sr))"
proof (intro conjI impI)
  show "filter is_hook_call tr1 = filter is_hook_call tr"
    using assms by (rule call_scraper_no_hook)
next
  assume h: "handleCustomScraping c tr1 (resp_text sr) url = Inr (Some d) \<and> d_scraper d = ''fire-engine'' \<and>
     scrapWithFireEngine c (tr1 @ [Call_handleCustomScraping (resp_text sr) url]) (custom_fire_engine_args d) = Inr r \<and>
     removeUnwantedElements c (fe_html r) po = Inr cl \<and> parseMarkdown c cl = Inr md"
  have cs: "custom_scrape c po [] (Some d) (tr1 @ [Call_handleCustomScraping (resp_text sr) url]) =
      (Inr (Some r), (tr1 @ [Call_handleCustomScraping (resp_text sr) url]) @
                      [Call_scrapWithFireEngine (custom_fire_engine_args d)])"
    using h by (intro custom_scrape_fire_engine) simp_all
  show "\<exists>a. attemptScraping c po url method tr =
              (Inr a, tr1 @ [Call_handleCustomScraping (resp_text sr) url,
                             Call_scrapWithFireEngine (custom_fire_engine_args d)]) \<and>
            att_rawHtml a = fe_html r \<and> att_html a = cl \<and> att_text a = md \<and>
            (resp_screenshot sr \<noteq> [] \<longrightarrow> att_screenshot a = resp_screenshot sr)"
    using attemptScraping_after_hook [OF assms _ cs, of cl md] h by simp
next
  assume h: "handleCustomScraping c tr1 (resp_text sr) url = Inr (Some d) \<and> d_scraper d = ''pdf'' \<and>
     fetchAndProcessPdf c (tr1 @ [Call_handleCustomScraping (resp_text sr) url]) (d_url d) (po_parsePDF po) = Inr p \<and>
     removeUnwantedElements c (sr_content p) po = Inr cl \<and> parseMarkdown c cl = Inr md"
  have cs: "custom_scrape c po [] (Some d) (tr1 @ [Call_handleCustomScraping (resp_text sr) url]) =
      (Inr (Some \<lparr>fe_html = sr_content p, fe_screenshot = [], fe_pageStatusCode = sr_pageStatusCode p,
                  fe_pageError = sr_pageError p\<rparr>),
       (tr1 @ [Call_handleCustomScraping (resp_text sr) url]) @
         [Call_fetchAndProcessPdf (d_url d) (po_parsePDF po)])"
    using h by (intro custom_scrape_pdf) simp_all
  show "\<exists>a. attemptScraping c po url method tr =
              (Inr a, tr1 @ [Call_handleCustomScraping (resp_text sr) url,
                             Call_fetchAndProcessPdf (d_url d) (po_parsePDF po)]) \<and>
            att_rawHtml a = sr_content p \<and> att_html a = cl \<and> att_text a = md \<and>
            (resp_screenshot sr \<noteq> [] \<longrightarrow> att_screenshot a = resp_screenshot sr)"
    using attemptScraping_after_hook [OF assms _ cs, of cl md] h by simp
next
  assume h: "handleCustomScraping c tr1 (resp_text sr) url = Inr None \<and>
     removeUnwantedElements c (resp_text sr) po = Inr cl \<and> parseMarkdown c cl = Inr md"
  show "\<exists>a. attemptScraping c po url method tr =
              (Inr a, tr1 @ [Call_handleCustomScraping (resp_text sr) url]) \<and>
            att_rawHtml a = resp_text sr \<and> att_html a = cl \<and> att_text a = md \<and>
            att_screenshot a = resp_screenshot sr"
    using attemptScraping_after_hook [OF assms _ custom_scrape_none, where cl = cl and md = md] h by simp
qed

theorem override_replaces_content_witness:
  "attemptScraping override_collaborators screenshot_pageOptions ''readme'' ''fire-engine'' [] =
     (Inr \<lparr>att_text = ''rendered'', att_html = ''rendered'', att_rawHtml = ''rendered'',
            att_screenshot = ''shot'', att_pageStatusCode = Some 200, att_pageError = None\<rparr>,
      [Call_scrapWithFireEngine
         \<lparr>arg_url = ''readme'', arg_waitFor = Some 0, arg_screenshot = Some True,
          arg_pageOptions = Some screenshot_pageOptions, arg_headers = None\<rparr>,
       Call_handleCustomScraping ''readme'' ''readme'',
       Call_scrapWithFireEngine
         \<lparr>arg_url = ''readme'', arg_waitFor = Some 1000, arg_screenshot = Some False,
          arg_pageOptions = None, arg_headers = None\<rparr>]) \<and>
   attemptScraping override_collaborators example_pageOptions ''drive'' ''fetch'' [] =
     (Inr \<lparr>att_text = ''pdf text'', att_html = ''pdf text'', att_rawHtml = ''pdf text'',
            att_screenshot = [], att_pageStatusCode = Some 200, att_pageError = None\<rparr>,
      [Call_scrapWithFetch ''drive'', Call_handleCustomScraping ''drive'' ''drive'',
       Call_fetchAndProcessPdf ''drive.pdf'' None]) \<and>
   attemptScraping override_collaborators example_pageOptions ''plain'' ''fetch'' [] =
     (Inr \<lparr>att_text = ''plain'', att_html = ''plain'', att_rawHtml = ''plain'',
            att_screenshot = [], att_pageStatusCode = Some 200, att_pageError = None\<rparr>,
      [Call_scrapWithFetch ''plain'', Call_handleCustomScraping ''plain'' ''plain''])"
proof -
  let ?d1 = "\<lparr>d_scraper = ''fire-engine'', d_url = ''readme'', d_waitAfterLoad = Some 1000,
              d_pageOptions = None\<rparr>"
  let ?r1 = "\<lparr>fe_html = ''rendered'', fe_screenshot = [], fe_pageStatusCode = Some 200,
              fe_pageError = None\<rparr>"
  let ?d2 = "\<lparr>d_scraper = ''pdf'', d_url = ''drive.pdf'', d_waitAfterLoad = None,
              d_pageOptions = None\<rparr>"
  let ?p2 = "\<lparr>sr_content = ''pdf text'', sr_pageStatusCode = Some 200, sr_pageError = None\<rparr>"
  have a: "\<exists>a. attemptScraping override_collaborators screenshot_pageOptions ''readme'' ''fire-engine'' [] =
     (Inr a, [Call_scrapWithFireEngine
         \<lparr>arg_url = ''readme'', arg_waitFor = Some 0, arg_screenshot = Some True,
          arg_pageOptions = Some screenshot_pageOptions, arg_headers = None\<rparr>,
       Call_handleCustomScraping ''readme'' ''readme'',
       Call_scrapWithFireEngine (custom_fire_engine_args ?d1)]) \<and>
     att_rawHtml a = ''rendered'' \<and> att_html a = ''rendered'' \<and> att_text a = ''rendered'' \<and>
     att_screenshot a = ''shot''"
    using override_replaces_content [OF call_scraper_fe_example, of ?d1 ?r1 "''rendered''" "''rendered''"]
    by (simp add: override_collaborators_def custom_fire_engine_args_def)
  have b: "\<exists>a. attemptScraping override_collaborators example_pageOptions ''drive'' ''fetch'' [] =
     (Inr a, [Call_scrapWithFetch ''drive'', Call_handleCustomScraping ''drive'' ''drive'',
       Call_fetchAndProcessPdf ''drive.pdf'' (po_parsePDF example_pageOptions)]) \<and>
     att_rawHtml a = ''pdf text'' \<and> att_html a = ''pdf text'' \<and> att_text a = ''pdf text''"
    using override_replaces_content [OF call_scraper_fetch_example, of "''drive''" ?d2 _ "''pdf text''"
        "''pdf text''" ?p2]
    by (simp add: override_collaborators_def)
  have c: "\<exists>a. attemptScraping override_collaborators example_pageOptions ''plain'' ''fetch'' [] =
     (Inr a, [Call_scrapWithFetch ''plain'', Call_handleCustomScraping ''plain'' ''plain'']) \<and>
     att_rawHtml a = ''plain'' \<and> att_html a = ''plain'' \<and> att_text a = ''plain'' \<and> att_screenshot a = []"
    using override_replaces_content [OF call_scraper_fetch_example, of "''plain''" _ _ "''plain''" "''plain''"]
    by (simp add: override_collaborators_def)
  show ?thesis
    using a b c
    by (simp add: attemptScraping_def call_scraper_def custom_scrape_def custom_fire_engine_args_def
        io_bind_def io_call_def io_pure_def io_return_def or_undefined_def Let_def env_set_def
        from_ScrapeResult_def override_collaborators_def screenshot_pageOptions_def
        example_pageOptions_def)
qed

text \<open>
  C6 as stated fails: the planned backend returns the screenshot \<^verbatim>\<open>shot\<close>, the hook redirects
  to the render service, whose extra fetch returns an empty screenshot; the attempt still
  returns \<^verbatim>\<open>shot\<close>.
\<close>

theorem override_screenshot_counterexample:
  "fst (attemptScraping override_collaborators screenshot_pageOptions ''readme'' ''fire-engine'' []) =
     Inr \<lparr>att_text = ''rendered'', att_html = ''rendered'', att_rawHtml = ''rendered'',
           att_screenshot = ''shot'', att_pageStatusCode = Some 200, att_pageError = None\<rparr>
   \<and> scrapWithFireEngine override_collaborators
        [Call_scrapWithFireEngine
           \<lparr>arg_url = ''readme'', arg_waitFor = Some 0, arg_screenshot = Some True,
            arg_pageOptions = Some screenshot_pageOptions, arg_headers = None\<rparr>,
         Call_handleCustomScraping ''readme'' ''readme'']
        \<lparr>arg_url = ''readme'', arg_waitFor = Some 1000, arg_screenshot = Some False,
         arg_pageOptions = None, arg_headers = None\<rparr> =
     Inr \<lparr>fe_html = ''rendered'', fe_screenshot = [], fe_pageStatusCode = Some 200, fe_pageError = None\<rparr>"
  by (simp add: attemptScraping_def call_scraper_def custom_scrape_def custom_fire_engine_args_def
      io_bind_def io_call_def io_pure_def io_return_def or_undefined_def Let_def env_set_def
      override_collaborators_def screenshot_pageOptions_def example_pageOptions_def)

text \<open>
  C7. When the pre-fetched content has a trimmed length of at least 100, \<open>scrapSingleUrl\<close>
  makes no call at all (the trace is unchanged, the loop makes no attempt); when cleaning and
  conversion return, the loop ends without exception with the converted text and the cleaned
  content, and a non-empty text becomes the document's content.
\<close>

theorem prefetched_content_short_circuit:
  assumes "100 \<le> length (trim existingHtml)"
  shows "snd (scrapSingleUrl c url pageOptions mode existingHtml tr) = tr \<and>
     loop_attempts c pageOptions existingHtml (trim url) (planned_order c pageOptions (trim url))
       initial_vars tr = [] \<and>
     (removeUnwantedElements c existingHtml pageOptions = Inr cleanedHtml \<and>
      parseMarkdown c cleanedHtml = Inr markdown \<longrightarrow>
        scrape_loop c pageOptions existingHtml (trim url) (planned_order c pageOptions (trim url))
          initial_vars tr =
          (None, initial_vars\<lparr>var_text := markdown, var_html := cleanedHtml\<rparr>, tr) \<and>
        (markdown \<noteq> [] \<and> extractMetadata c [] (trim url) = Inr metadata \<longrightarrow>
           fst (scrapSingleUrl c url pageOptions mode existingHtml tr) =
             build_document pageOptions mode (trim url)
               (initial_vars\<lparr>var_text := markdown, var_html := cleanedHtml\<rparr>) metadata))"
proof -
  have suff: "sufficient existingHtml" using assms by (simp add: sufficient_iff)
  have ne: "planned_order c pageOptions (trim url) \<noteq> []"
    by (simp add: planned_order_def plan_nonempty)
  note sc = loop_short_circuit [OF suff ne, of c pageOptions "trim url" initial_vars tr]
  have 1: "snd (scrapSingleUrl c url pageOptions mode existingHtml tr) = tr"
    unfolding scrapSingleUrl_trace sc by (simp split: sum.splits)
  have 2: "loop_attempts c pageOptions existingHtml (trim url) (planned_order c pageOptions (trim url))
       initial_vars tr = []"
    using suff by (rule loop_attempts_short)
  have 3: "scrape_loop c pageOptions existingHtml (trim url) (planned_order c pageOptions (trim url))
          initial_vars tr = (None, initial_vars\<lparr>var_text := markdown, var_html := cleanedHtml\<rparr>, tr)"
    if "removeUnwantedElements c existingHtml pageOptions = Inr cleanedHtml"
      and "parseMarkdown c cleanedHtml = Inr markdown"
    unfolding sc using that by simp
  have 4: "fst (scrapSingleUrl c url pageOptions mode existingHtml tr) =
             build_document pageOptions mode (trim url)
               (initial_vars\<lparr>var_text := markdown, var_html := cleanedHtml\<rparr>) metadata"
    if "removeUnwantedElements c existingHtml pageOptions = Inr cleanedHtml"
      and "parseMarkdown c cleanedHtml = Inr markdown"
      and "markdown \<noteq> []" and "extractMetadata c [] (trim url) = Inr metadata"
    using 3 [OF that(1,2)] that(3,4) by (simp add: scrapSingleUrl_def Let_def initial_vars_def)
  show ?thesis using 1 2 3 4 by blast
qed

theorem prefetched_content_short_circuit_witness:
  "100 \<le> length (trim (replicate 100 CHR ''a'')) \<and>
   snd (scrapSingleUrl (failing_collaborators None None) ''https://example.com/'' example_pageOptions
          ''llm-extraction-from-markdown'' (replicate 100 CHR ''a'') []) = [] \<and>
   removeUnwantedElements (failing_collaborators None None) (replicate 100 CHR ''a'') example_pageOptions =
     Inr (replicate 100 CHR ''a'') \<and>
   parseMarkdown (failing_collaborators None None) (replicate 100 CHR ''a'') = Inr (replicate 100 CHR ''a'') \<and>
   replicate 100 CHR ''a'' \<noteq> [] \<and>
   extractMetadata (failing_collaborators None None) [] (trim ''https://example.com/'') = Inr Map.empty \<and>
   fst (scrapSingleUrl (failing_collaborators None None) ''https://example.com/'' example_pageOptions
          ''llm-extraction-from-markdown'' (replicate 100 CHR ''a'') []) =
     \<lparr>doc_content = replicate 100 CHR ''a'', doc_markdown = replicate 100 CHR ''a'',
      doc_html = None, doc_rawHtml = None,
      doc_metadata =
        [''sourceURL'' \<mapsto> JStr ''https://example.com/'',
         ''pageStatusCode'' \<mapsto> JNum 200,
         ''pageError'' \<mapsto> JUndefined]\<rparr>"
  using prefetched_content_short_circuit [of "replicate 100 CHR ''a''" "failing_collaborators None None"
      "''https://example.com/''" example_pageOptions "''llm-extraction-from-markdown''" "[]"
      "replicate 100 CHR ''a''" "replicate 100 CHR ''a''" Map.empty]
  by (simp add: trim_replicate_a trim_url_example build_document_def initial_vars_def
      js_string_option_def)
    (simp add: failing_collaborators_def example_pageOptions_def)

text \<open>
  C8. \<open>generateRequestParams\<close> returns the default parameters when the URL does not parse and
  when the host, without a leading \<^verbatim>\<open>www.\<close>, has no entry in the table; with an entry, every
  field of the entry is in the result with the entry's value, and every other field has its
  default value. The function returns in every case.
\<close>

theorem generateRequestParams_overlay:
  "(url_hostname c url = None \<longrightarrow>
      generateRequestParams c url wait_browser timeout = defaultParams url wait_browser timeout) \<and>
   (url_hostname c url = Some hostname \<and> urlSpecificParams c (strip_www hostname) = None \<longrightarrow>
      generateRequestParams c url wait_browser timeout = defaultParams url wait_browser timeout) \<and>
   (url_hostname c url = Some hostname \<and> urlSpecificParams c (strip_www hostname) = Some entry \<longrightarrow>
      (field \<in> dom entry \<longrightarrow> generateRequestParams c url wait_browser timeout field = entry field) \<and>
      (field \<notin> dom entry \<longrightarrow>
         generateRequestParams c url wait_browser timeout field =
           defaultParams url wait_browser timeout field))"
  by (auto simp: generateRequestParams_def Let_def map_add_def split: option.splits)

theorem generateRequestParams_overlay_witness:
  "url_hostname resolver_collaborators ''not a url'' = None \<and>
   generateRequestParams resolver_collaborators ''not a url'' ''domcontentloaded'' 15000 =
     defaultParams ''not a url'' ''domcontentloaded'' 15000 \<and>
   url_hostname resolver_collaborators ''https://other.org/'' = Some ''other.org'' \<and>
   urlSpecificParams resolver_collaborators (strip_www ''other.org'') = None \<and>
   generateRequestParams resolver_collaborators ''https://other.org/'' ''domcontentloaded'' 15000 =
     defaultParams ''https://other.org/'' ''domcontentloaded'' 15000 \<and>
   url_hostname resolver_collaborators ''https://www.example.com/docs'' = Some ''www.example.com'' \<and>
   generateRequestParams resolver_collaborators ''https://www.example.com/docs'' ''domcontentloaded'' 15000
       ''params'' = Some (JObj [(''wait'', JNum 1000)]) \<and>
   generateRequestParams resolver_collaborators ''https://www.example.com/docs'' ''domcontentloaded'' 15000
       ''headers'' = Some (JObj [(''ScrapingService-Request'', JStr ''TRUE'')])"
  using
    generateRequestParams_overlay [of resolver_collaborators "''not a url''" "''domcontentloaded''" 15000]
    generateRequestParams_overlay [of resolver_collaborators "''https://other.org/''"
      "''domcontentloaded''" 15000 "''other.org''"]
    generateRequestParams_overlay [of resolver_collaborators "''https://www.example.com/docs''"
      "''domcontentloaded''" 15000 "''www.example.com''"
      "[''params'' \<mapsto> JObj [(''wait'', JNum 1000)], ''defaultScraper'' \<mapsto> JStr ''playwright'']" "''params''"]
    generateRequestParams_overlay [of resolver_collaborators "''https://www.example.com/docs''"
      "''domcontentloaded''" 15000 "''www.example.com''"
      "[''params'' \<mapsto> JObj [(''wait'', JNum 1000)], ''defaultScraper'' \<mapsto> JStr ''playwright'']" "''headers''"]
  by (simp add: resolver_collaborators_def failing_collaborators_def strip_www_example strip_www_other
      defaultParams_def)

text \<open>
  C9. Without a forced backend, when a wait, a screenshot or custom headers are asked for, the
  plan is the available ones of \<^verbatim>\<open>fire-engine\<close> and \<^verbatim>\<open>playwright\<close>, in this order, followed by
  the other backends in the order the plan without flags has them.
\<close>

theorem heavy_backends_promoted:
  "w \<or> s \<or> h \<Longrightarrow>
   getScrapingFallbackOrder e [] w s h =
     filter (scraper_available e) [''fire-engine'', ''playwright''] @
     filter (\<lambda>x. x \<noteq> ''fire-engine'' \<and> x \<noteq> ''playwright'')
       (getScrapingFallbackOrder e [] False False False)"
  by (simp add: plan_noforce scraper_available_def)

theorem heavy_backends_promoted_witness:
  "getScrapingFallbackOrder all_env [] True False False =
     [''fire-engine'', ''playwright'', ''scrapingBee'', ''scrapingBeeLoad'', ''fetch''] \<and>
   getScrapingFallbackOrder all_env [] False False False =
     [''scrapingBee'', ''fire-engine'', ''playwright'', ''scrapingBeeLoad'', ''fetch'']"
  using heavy_backends_promoted [of True False False all_env]
  by (simp add: plan_noforce all_env_available)

text \<open>
  C10. When no attempt of the loop reports a status code, the document that \<open>scrapSingleUrl\<close>
  returns has \<^verbatim>\<open>pageStatusCode\<close> 200, the initial value of the loop's variable; so has the
  document of the \<^verbatim>\<open>catch\<close> block when every backend fails without a status.
\<close>

theorem default_status_when_none_reported:
  assumes "\<forall>a \<in> set (loop_attempts c pageOptions existingHtml (trim url)
                      (planned_order c pageOptions (trim url)) initial_vars tr).
             att_pageStatusCode a = None"
  shows "doc_metadata (fst (scrapSingleUrl c url pageOptions mode existingHtml tr)) ''pageStatusCode'' =
           Some (JNum 200)"
proof -
  obtain thrown v tr' where run:
    "scrape_loop c pageOptions existingHtml (trim url) (planned_order c pageOptions (trim url))
       initial_vars tr = (thrown, v, tr')"
    by (cases "scrape_loop c pageOptions existingHtml (trim url)
                 (planned_order c pageOptions (trim url)) initial_vars tr") auto
  have "var_pageStatusCode v = var_pageStatusCode initial_vars"
    using loop_carried [OF run] foldl_status_none [of _ initial_vars] assms by simp
  then show ?thesis using scrapSingleUrl_status [OF run, of mode] by (simp add: initial_vars_def)
qed

theorem default_status_when_none_reported_witness:
  "loop_attempts (failing_collaborators None None) example_pageOptions []
       (trim ''https://example.com/'')
       (planned_order (failing_collaborators None None) example_pageOptions (trim ''https://example.com/''))
       initial_vars [] = [example_attempt None None] \<and>
   att_pageStatusCode (example_attempt None None) = None \<and>
   fst (scrapSingleUrl (failing_collaborators None None) ''https://example.com/'' example_pageOptions
          ''llm-extraction-from-markdown'' [] []) =
     \<lparr>doc_content = [], doc_markdown = [], doc_html = Some [], doc_rawHtml = None,
      doc_metadata =
        [''sourceURL'' \<mapsto> JStr ''https://example.com/'',
         ''pageStatusCode'' \<mapsto> JNum 200,
         ''pageError'' \<mapsto> JUndefined]\<rparr> \<and>
   doc_metadata (fst (scrapSingleUrl (failing_collaborators None None) ''https://example.com/''
      example_pageOptions ''llm-extraction-from-markdown'' [] [])) ''pageStatusCode'' = Some (JNum 200)"
  using default_status_when_none_reported [of "failing_collaborators None None" example_pageOptions "[]"
      "''https://example.com/''" "[]" "''llm-extraction-from-markdown''"]
    scrapSingleUrl_degraded [of "failing_collaborators None None" example_pageOptions "[]"
      "''https://example.com/''" "[]" None "fold_attempt initial_vars (example_attempt None None)"
      "[Call_scrapWithFetch ''https://example.com/'', Call_handleCustomScraping [] ''https://example.com/'']"
      "''llm-extraction-from-markdown''"]
  by (simp add: not_suff_empty plan_no_env loop_attempts_failing loop_failing trim_url_example
      example_attempt_def or_undefined_def fold_attempt_def initial_vars_def js_ge_def js_lt_def
      js_string_option_def degraded_document_def Let_def
      del: loop_attempts.simps scrape_loop.simps)

end
